theory Spec2Isabelle
  imports Main
begin

section \<open>Python values used by the PDF reader\<close>

text \<open>
  The reader (\<^verbatim>\<open>mypypdf/_reader.py\<close>, \<^verbatim>\<open>generic.py\<close>, \<^verbatim>\<open>_page.py\<close>) works on a
  \<^verbatim>\<open>bytes\<close> buffer. A byte is a \<^typ>\<open>char\<close>, a buffer a \<^typ>\<open>string\<close>. A Python \<^verbatim>\<open>str\<close>
  that only ever holds Latin-1 decoded bytes (a PDF name) is a \<^typ>\<open>string\<close> too; the text
  of a string object may hold code points above 255 (an octal escape reaches 511) and is a
  list of code points.

  Exceptions are values. \<open>OutOfFuel\<close> is not a Python exception: the recursive parsers
  take a budget of nested calls, and \<open>OutOfFuel\<close> says that the budget given was too
  small for the input (CPython ends an unbounded recursion with RecursionError).
\<close>

datatype error =
    EmptyFileError
  | PdfReadError string
  | ValueError
  | TypeError
  | AttributeError
  | IndexError
  | KeyError

datatype 'a outcome = Return 'a | Raise error | OutOfFuel

definition bind :: "'a outcome \<Rightarrow> ('a \<Rightarrow> 'b outcome) \<Rightarrow> 'b outcome" where
  "bind m k = (case m of Return x \<Rightarrow> k x | Raise e \<Rightarrow> Raise e | OutOfFuel \<Rightarrow> OutOfFuel)"

subsection \<open>Slices and searches on byte buffers\<close>

definition clamp_index :: "nat \<Rightarrow> int \<Rightarrow> nat" where
  \<comment> \<open>Python's adjustment of a slice bound: a negative bound counts from the end.\<close>
  "clamp_index n i = (if i < 0 then nat (max 0 (int n + i)) else min (nat i) n)"

definition py_slice :: "'a list \<Rightarrow> int \<Rightarrow> int \<Rightarrow> 'a list" where
  \<comment> \<open>\<^verbatim>\<open>xs[a:b]\<close>\<close>
  "py_slice xs a b =
     (let lo = clamp_index (length xs) a; hi = clamp_index (length xs) b
      in drop lo (take hi xs))"

definition py_slice_from :: "'a list \<Rightarrow> int \<Rightarrow> 'a list" where
  \<comment> \<open>\<^verbatim>\<open>xs[a:]\<close>\<close>
  "py_slice_from xs a = drop (clamp_index (length xs) a) xs"

definition slice :: "'a list \<Rightarrow> nat \<Rightarrow> nat \<Rightarrow> 'a list" where
  \<comment> \<open>\<^verbatim>\<open>xs[a:b]\<close> for bounds that are not negative\<close>
  "slice xs a b = drop a (take b xs)"

fun startswith :: "string \<Rightarrow> string \<Rightarrow> bool" where
  "startswith s [] = True"
| "startswith [] (p # ps) = False"
| "startswith (c # cs) (p # ps) = (c = p \<and> startswith cs ps)"

fun find_prefix :: "string \<Rightarrow> string \<Rightarrow> nat option" where
  \<comment> \<open>position of the first occurrence of a non-empty pattern\<close>
  "find_prefix [] p = None"
| "find_prefix (c # cs) p =
     (if startswith (c # cs) p then Some 0
      else map_option Suc (find_prefix cs p))"

definition find_from :: "string \<Rightarrow> string \<Rightarrow> nat \<Rightarrow> nat option" where
  \<comment> \<open>\<^verbatim>\<open>data.find(p, start)\<close> for a non-empty \<open>p\<close>; \<open>None\<close> is Python's -1\<close>
  "find_from data p start = map_option (\<lambda>k. start + k) (find_prefix (drop start data) p)"

subsection \<open>Character classes\<close>

definition is_digit :: "char \<Rightarrow> bool" where
  \<comment> \<open>membership in \<^verbatim>\<open>b"0123456789"\<close>, the class \<^verbatim>\<open>\d\<close> on bytes\<close>
  "is_digit c = (c \<in> set ''0123456789'')"

definition digit_val :: "char \<Rightarrow> nat" where
  "digit_val c = of_char c - 48"

definition is_pdf_ws :: "char \<Rightarrow> bool" where
  \<comment> \<open>membership in \<^verbatim>\<open>b" \t\r\n"\<close>\<close>
  "is_pdf_ws c = (c = CHR '' '' \<or> c = CHR 0x09 \<or> c = CHR 0x0D \<or> c = CHR 0x0A)"

definition is_space :: "char \<Rightarrow> bool" where
  \<comment> \<open>the regular expression class \<^verbatim>\<open>\s\<close> on bytes, also what \<^verbatim>\<open>bytes.strip\<close> and
      \<^verbatim>\<open>bytes.split\<close> treat as white space: space, \<^verbatim>\<open>\t \n \v \f \r\<close>\<close>
  "is_space c = (c \<in> set [CHR '' '', CHR 0x09, CHR 0x0A, CHR 0x0B, CHR 0x0C, CHR 0x0D])"

definition is_name_end :: "char \<Rightarrow> bool" where
  \<comment> \<open>membership in \<^verbatim>\<open>b" \t\r\n<>[](){}/%"\<close>\<close>
  "is_name_end c = (is_pdf_ws c \<or> c \<in> set ''<>[](){}/%'')"

definition is_number_start :: "char \<Rightarrow> bool" where
  \<comment> \<open>membership in \<^verbatim>\<open>b"0123456789+-."\<close>\<close>
  "is_number_start c = (is_digit c \<or> c = CHR ''+'' \<or> c = CHR ''-'' \<or> c = CHR ''.'')"

definition digits_val :: "string \<Rightarrow> nat" where
  \<comment> \<open>\<^verbatim>\<open>int(s)\<close> for a string of decimal digits\<close>
  "digits_val s = foldl (\<lambda>a c. 10 * a + digit_val c) 0 s"

subsection \<open>The object model (generic.py)\<close>

text \<open>
  A number object holds a Python int or a float. A float only arises from the decimal text
  \<^verbatim>\<open>[+-]?\d+\.\d*\<close>; it is kept as that decimal, \<open>RealNum m k\<close> standing for
  \<open>m / 10 ^ k\<close> (binary rounding is not modelled).

  \<^verbatim>\<open>DictionaryObject\<close> is a Python dict: an association list in insertion order.
  \<^verbatim>\<open>StreamObject\<close> is a dictionary with the raw bytes \<^verbatim>\<open>_data\<close> and the cache
  \<^verbatim>\<open>_decoded_data\<close>. \<^verbatim>\<open>IndirectObject\<close> holds the object number, the generation and the
  field \<^verbatim>\<open>pdf\<close>, here whether it is the reader (\<open>True\<close>) or \<^verbatim>\<open>None\<close>.
\<close>

datatype number = IntNum int | RealNum int nat

datatype pdf_object =
    NullObject
  | BooleanObject bool
  | NumberObject number
  | NameObject string
  | StringObject "nat list"
  | HexStringObject "nat list"
  | ArrayObject "pdf_object list"
  | DictionaryObject "(pdf_object \<times> pdf_object) list"
  | StreamObject "(pdf_object \<times> pdf_object) list" string "string option"
  | IndirectObject int int bool

type_synonym dict = "(pdf_object \<times> pdf_object) list"

definition mk_name :: "string \<Rightarrow> pdf_object" where
  \<comment> \<open>\<^verbatim>\<open>NameObject.__init__\<close>: the name is stored with its leading slash\<close>
  "mk_name name = (if startswith name ''/'' then NameObject name else NameObject (''/'' @ name))"

fun is_dictionary :: "pdf_object \<Rightarrow> bool" where
  \<comment> \<open>\<^verbatim>\<open>isinstance(x, DictionaryObject)\<close>; a stream is a dictionary\<close>
  "is_dictionary (DictionaryObject d) = True"
| "is_dictionary (StreamObject d raw dec) = True"
| "is_dictionary x = False"

fun entries :: "pdf_object \<Rightarrow> dict" where
  "entries (DictionaryObject d) = d"
| "entries (StreamObject d raw dec) = d"
| "entries x = []"

fun truthy :: "pdf_object \<Rightarrow> bool" where
  \<comment> \<open>Python truth value: \<^verbatim>\<open>BooleanObject.__bool__\<close>, the length of a list or dict, and
      \<open>True\<close> for every other object\<close>
  "truthy (BooleanObject b) = b"
| "truthy (ArrayObject xs) = (xs \<noteq> [])"
| "truthy (DictionaryObject d) = (d \<noteq> [])"
| "truthy (StreamObject d raw dec) = (d \<noteq> [])"
| "truthy x = True"

definition truthy_opt :: "pdf_object option \<Rightarrow> bool" where
  \<comment> \<open>the same for a value that may be Python's \<^verbatim>\<open>None\<close>\<close>
  "truthy_opt v = (case v of None \<Rightarrow> False | Some x \<Rightarrow> truthy x)"

definition dict_get :: "dict \<Rightarrow> string \<Rightarrow> pdf_object option" where
  \<comment> \<open>\<^verbatim>\<open>d.get("/Key")\<close>: a \<^verbatim>\<open>str\<close> equals exactly the name object of that text
      (\<^verbatim>\<open>NameObject.__eq__\<close>, \<^verbatim>\<open>__hash__\<close>)\<close>
  "dict_get d k = map_of d (NameObject k)"

fun value_eq_key :: "pdf_object \<Rightarrow> bool" where
  \<comment> \<open>the classes that define \<^verbatim>\<open>__eq__\<close> and \<^verbatim>\<open>__hash__\<close> by value; objects of the
      other classes are dict keys by identity\<close>
  "value_eq_key (NameObject n) = True"
| "value_eq_key (IndirectObject n g p) = True"
| "value_eq_key x = False"

fun dict_update_key :: "pdf_object \<Rightarrow> pdf_object \<Rightarrow> dict \<Rightarrow> dict" where
  "dict_update_key k v [] = [(k, v)]"
| "dict_update_key k v ((k', v') # d) =
     (if k' = k then (k, v) # d else (k', v') # dict_update_key k v d)"

definition dict_set :: "dict \<Rightarrow> pdf_object \<Rightarrow> pdf_object \<Rightarrow> dict" where
  \<comment> \<open>\<^verbatim>\<open>d[key] = value\<close>: an equal key keeps its place and takes the new value, a new key
      goes last; the key object first stored is kept\<close>
  "dict_set d k v = (if value_eq_key k then dict_update_key k v d else d @ [(k, v)])"

definition dict_update :: "dict \<Rightarrow> dict \<Rightarrow> dict" where
  \<comment> \<open>\<^verbatim>\<open>d.update(other)\<close> for a dict \<open>other\<close>\<close>
  "dict_update d other = foldl (\<lambda>acc (k, v). dict_set acc k v) d other"

section \<open>Tokenizer and object parser (\<^verbatim>\<open>PdfReader._parse_object\<close> and helpers)\<close>

function skip_ws :: "string \<Rightarrow> nat \<Rightarrow> nat" where
  \<comment> \<open>\<^verbatim>\<open>while idx < len(data) and data[idx:idx + 1] in b" \t\r\n": idx += 1\<close>\<close>
  "skip_ws data idx =
     (if idx < length data \<and> is_pdf_ws (data ! idx) then skip_ws data (idx + 1) else idx)"
  by pat_completeness auto
termination
  by (relation "measure (\<lambda>(data, idx). length data - idx)") auto

declare skip_ws.simps [simp del]

function name_end :: "string \<Rightarrow> nat \<Rightarrow> nat" where
  \<comment> \<open>\<^verbatim>\<open>while end < len(data) and data[end:end + 1] not in b" \t\r\n<>[](){}/%": end += 1\<close>\<close>
  "name_end data e =
     (if e < length data \<and> \<not> is_name_end (data ! e) then name_end data (e + 1) else e)"
  by pat_completeness auto
termination
  by (relation "measure (\<lambda>(data, e). length data - e)") auto

declare name_end.simps [simp del]

definition match_number :: "string \<Rightarrow> string option" where
  \<comment> \<open>\<^verbatim>\<open>re.match(rb"([+-]?\d+\.?\d*)", s)\<close>: the matched text\<close>
  "match_number s =
     (let sg = (case s of [] \<Rightarrow> [] | c # cs \<Rightarrow> if c = CHR ''+'' \<or> c = CHR ''-'' then [c] else []);
          r = drop (length sg) s;
          ds = takeWhile is_digit r;
          r2 = drop (length ds) r
      in if ds = [] then None
         else (case r2 of
                 [] \<Rightarrow> Some (sg @ ds)
               | c # r3 \<Rightarrow>
                   if c = CHR ''.'' then Some (sg @ ds @ [c] @ takeWhile is_digit r3)
                   else Some (sg @ ds)))"

definition number_of_text :: "string \<Rightarrow> number" where
  \<comment> \<open>\<^verbatim>\<open>float(num_str) if "." in num_str else int(num_str)\<close> on a text matched by
      \<open>match_number\<close>, where neither conversion raises\<close>
  "number_of_text s =
     (let body = (if startswith s ''+'' \<or> startswith s ''-'' then tl s else s);
          sgn = (if startswith s ''-'' then - 1 else 1 :: int);
          ip = takeWhile (\<lambda>c. c \<noteq> CHR ''.'') body;
          fp = drop (length ip + 1) body
      in if CHR ''.'' \<in> set s then RealNum (sgn * int (digits_val (ip @ fp))) (length fp)
         else IntNum (sgn * int (digits_val ip)))"

definition match_ref :: "string \<Rightarrow> (nat \<times> nat \<times> nat) option" where
  \<comment> \<open>\<^verbatim>\<open>re.match(rb"(\d+)\s+(\d+)\s+R", s)\<close>: both numbers and the end of the match\<close>
  "match_ref s =
     (let d1 = takeWhile is_digit s; r1 = drop (length d1) s;
          w1 = takeWhile is_space r1; r2 = drop (length w1) r1;
          d2 = takeWhile is_digit r2; r3 = drop (length d2) r2;
          w2 = takeWhile is_space r3; r4 = drop (length w2) r3
      in if d1 \<noteq> [] \<and> w1 \<noteq> [] \<and> d2 \<noteq> [] \<and> w2 \<noteq> [] \<and> startswith r4 ''R''
         then Some (digits_val d1, digits_val d2,
                    length d1 + length w1 + length d2 + length w2 + 1)
         else None)"

subsection \<open>Literal strings\<close>

definition octal_more :: "string \<Rightarrow> nat \<Rightarrow> nat" where
  \<comment> \<open>how many of the (at most two) bytes after \<open>idx\<close> the octal escape takes:
      \<^verbatim>\<open>for _ in range(2): if idx + 1 < len(data) and data[idx + 1:idx + 2] in b"0123456789"\<close>\<close>
  "octal_more data idx =
     (if idx + 1 < length data \<and> is_digit (data ! (idx + 1))
      then (if idx + 2 < length data \<and> is_digit (data ! (idx + 2)) then 2 else 1)
      else 0)"

definition int_base8 :: "string \<Rightarrow> nat option" where
  \<comment> \<open>\<^verbatim>\<open>int(octal, 8)\<close> on decimal digits: ValueError (\<open>None\<close>) on an 8 or a 9\<close>
  "int_base8 s =
     (if list_all (\<lambda>c. digit_val c < 8) s then Some (foldl (\<lambda>a c. 8 * a + digit_val c) 0 s)
      else None)"

function parse_literal_loop ::
  "string \<Rightarrow> nat \<Rightarrow> nat \<Rightarrow> nat list \<Rightarrow> (nat list \<times> nat) outcome" where
  \<comment> \<open>the \<^verbatim>\<open>while idx < len(data) and depth > 0\<close> loop of \<^verbatim>\<open>_parse_literal_string\<close>\<close>
  "parse_literal_loop data idx depth result =
     (if idx < length data \<and> depth > 0 then
        (let char = data ! idx in
         if char = CHR 0x5C then
           (if idx + 1 \<ge> length data then Return (result, idx + 1)
            else
              (let esc = data ! (idx + 1) in
               if esc = CHR ''n'' then parse_literal_loop data (idx + 2) depth (result @ [10])
               else if esc = CHR ''r'' then parse_literal_loop data (idx + 2) depth (result @ [13])
               else if esc = CHR ''t'' then parse_literal_loop data (idx + 2) depth (result @ [9])
               else if esc = CHR ''b'' then parse_literal_loop data (idx + 2) depth (result @ [8])
               else if esc = CHR ''f'' then parse_literal_loop data (idx + 2) depth (result @ [12])
               else if esc = CHR ''('' then parse_literal_loop data (idx + 2) depth (result @ [40])
               else if esc = CHR '')'' then parse_literal_loop data (idx + 2) depth (result @ [41])
               else if esc = CHR 0x5C then parse_literal_loop data (idx + 2) depth (result @ [92])
               else if is_digit esc then
                 (let k = octal_more data (idx + 1) in
                  case int_base8 (slice data (idx + 1) (idx + 2 + k)) of
                    None \<Rightarrow> Raise ValueError
                  | Some v \<Rightarrow> parse_literal_loop data (idx + 2 + k) depth (result @ [v]))
               else parse_literal_loop data (idx + 2) depth result))
         else if char = CHR ''('' then
           parse_literal_loop data (idx + 1) (depth + 1) (result @ [40])
         else if char = CHR '')'' then
           parse_literal_loop data (idx + 1) (depth - 1)
             (if depth - 1 > 0 then result @ [41] else result)
         else parse_literal_loop data (idx + 1) depth (result @ [of_char char]))
      else Return (result, idx))"
  by pat_completeness auto
termination
  by (relation "measure (\<lambda>(data, idx, depth, result). length data - idx)") auto

declare parse_literal_loop.simps [simp del]

definition parse_literal_string :: "string \<Rightarrow> nat \<Rightarrow> (pdf_object \<times> nat) outcome" where
  "parse_literal_string data idx =
     bind (parse_literal_loop data (idx + 1) 1 [])
       (\<lambda>(result, idx'). Return (StringObject result, idx'))"

subsection \<open>Hexadecimal strings\<close>

definition hex_val :: "char \<Rightarrow> nat option" where
  "hex_val c =
     (let n = of_char c :: nat in
      if is_digit c then Some (n - 48)
      else if c \<in> set ''abcdef'' then Some (n - 87)
      else if c \<in> set ''ABCDEF'' then Some (n - 55)
      else None)"

fun fromhex :: "string \<Rightarrow> nat list option" where
  \<comment> \<open>\<^verbatim>\<open>bytes.fromhex\<close>: white space is skipped before a pair, the two digits of a pair
      are adjacent; \<open>None\<close> is ValueError\<close>
  "fromhex [] = Some []"
| "fromhex [c] = (if is_space c then Some [] else None)"
| "fromhex (c # d # cs) =
     (if is_space c then fromhex (d # cs)
      else (case (hex_val c, hex_val d) of
              (Some h, Some l) \<Rightarrow> map_option ((#) (16 * h + l)) (fromhex cs)
            | _ \<Rightarrow> None))"

definition parse_hex_string :: "string \<Rightarrow> nat \<Rightarrow> pdf_object \<times> nat" where
  \<comment> \<open>every failure of the decoding (a byte that is no hexadecimal digit, a byte outside
      ASCII) ends in the bare \<^verbatim>\<open>except\<close> and gives the empty text\<close>
  "parse_hex_string data idx =
     (let e = (case find_from data ''>'' (idx + 1) of None \<Rightarrow> length data | Some e' \<Rightarrow> e');
          hex_data = filter (\<lambda>c. c \<noteq> CHR '' '' \<and> c \<noteq> CHR 0x0A \<and> c \<noteq> CHR 0x0D)
                       (slice data (idx + 1) e);
          hex_data' = (if odd (length hex_data) then hex_data @ ''0'' else hex_data);
          decoded = (case fromhex hex_data' of None \<Rightarrow> [] | Some bs \<Rightarrow> bs)
      in (HexStringObject decoded, e + 1))"

subsection \<open>The dispatcher, arrays and dictionaries\<close>

text \<open>
  \<^verbatim>\<open>_parse_object\<close>, \<^verbatim>\<open>_parse_array\<close> and \<^verbatim>\<open>_parse_dictionary\<close> call each other; the
  first argument bounds the number of nested calls still allowed, a turn of the
  \<^verbatim>\<open>while\<close> loop of an array or a dictionary counting as one. \<open>parse_array\<close> and
  \<open>parse_dictionary\<close> are those loops, entered behind the opening bracket with the empty
  container. Each \<^verbatim>\<open>if\<close> of \<^verbatim>\<open>_parse_object\<close> that does not return falls through to the
  next one, in the order of the source. The \<^verbatim>\<open>except ValueError\<close> around the number
  conversion is not modelled: \<^verbatim>\<open>int\<close> and \<^verbatim>\<open>float\<close> accept every text the expression
  matches (CPython's limit of 4300 digits for \<^verbatim>\<open>int\<close> aside).
\<close>

function (sequential)
  parse_object :: "nat \<Rightarrow> string \<Rightarrow> nat \<Rightarrow> (pdf_object \<times> nat) outcome"
  and parse_array :: "nat \<Rightarrow> string \<Rightarrow> nat \<Rightarrow> pdf_object list \<Rightarrow> (pdf_object \<times> nat) outcome"
  and parse_dictionary :: "nat \<Rightarrow> string \<Rightarrow> nat \<Rightarrow> dict \<Rightarrow> (pdf_object \<times> nat) outcome"
where
  "parse_object 0 data idx0 = OutOfFuel"
| "parse_object (Suc fuel) data idx0 =
     (let idx = skip_ws data idx0 in
      if idx \<ge> length data then Return (NullObject, idx)
      else
        (let char = data ! idx in
         if slice data idx (idx + 4) = ''null'' then Return (NullObject, idx + 4)
         else if slice data idx (idx + 4) = ''true'' then Return (BooleanObject True, idx + 4)
         else if slice data idx (idx + 5) = ''false'' then Return (BooleanObject False, idx + 5)
         else
           (case (if is_number_start char then match_number (drop idx data) else None) of
              Some num_str \<Rightarrow>
                Return (NumberObject (number_of_text num_str), idx + length num_str)
            | None \<Rightarrow>
           (case (if is_number_start char then match_ref (drop idx data) else None) of
              Some (obj_num, gen_num, e) \<Rightarrow>
                Return (IndirectObject (int obj_num) (int gen_num) True, idx + e)
            | None \<Rightarrow>
         if char = CHR ''/'' then
           (let e = name_end data (idx + 1) in Return (mk_name (slice data idx e), e))
         else if char = CHR ''('' then parse_literal_string data idx
         else if char = CHR ''<'' then
           (if slice data (idx + 1) (idx + 2) = ''<'' then parse_dictionary fuel data (idx + 2) []
            else Return (parse_hex_string data idx))
         else if char = CHR ''['' then parse_array fuel data (idx + 1) []
         else if slice data idx (idx + 2) = ''<<'' then parse_dictionary fuel data (idx + 2) []
         else
           (case match_ref (drop idx data) of
              Some (obj_num, gen_num, e) \<Rightarrow>
                Return (IndirectObject (int obj_num) (int gen_num) True, idx + e)
            | None \<Rightarrow> Return (NullObject, idx + 1))))))"
| "parse_array 0 data idx0 arr = OutOfFuel"
| "parse_array (Suc fuel) data idx0 arr =
     (if idx0 < length data then
        (let idx = skip_ws data idx0 in
         if idx \<ge> length data \<or> data ! idx = CHR '']'' then Return (ArrayObject arr, idx + 1)
         else bind (parse_object fuel data idx)
                (\<lambda>(obj, idx'). parse_array fuel data idx' (arr @ [obj])))
      else Return (ArrayObject arr, idx0))"
| "parse_dictionary 0 data idx0 d = OutOfFuel"
| "parse_dictionary (Suc fuel) data idx0 d =
     (if idx0 < length data then
        (let idx = skip_ws data idx0 in
         if idx \<ge> length data \<or> slice data idx (idx + 2) = ''>>''
         then Return (DictionaryObject d, idx + 2)
         else if data ! idx \<noteq> CHR ''/'' then parse_dictionary fuel data (idx + 1) d
         else bind (parse_object fuel data idx)
                (\<lambda>(key, idx1).
                   bind (parse_object fuel data (skip_ws data idx1))
                     (\<lambda>(val, idx2). parse_dictionary fuel data idx2 (dict_set d key val))))
      else Return (DictionaryObject d, idx0))"
  by pat_completeness auto
termination
  by (relation "measure (\<lambda>x. case x of Inl (fuel, _) \<Rightarrow> fuel
                                   | Inr (Inl (fuel, _)) \<Rightarrow> fuel
                                   | Inr (Inr (fuel, _)) \<Rightarrow> fuel)") auto

section \<open>Stream filters (\<^verbatim>\<open>StreamObject.decode_data\<close>)\<close>

text \<open>
  \<^verbatim>\<open>zlib.decompress\<close> is not code of the repository: it is the parameter \<open>inflate\<close>,
  with \<open>None\<close> for \<^verbatim>\<open>zlib.error\<close>.
\<close>

definition code_points :: "string \<Rightarrow> nat list" where
  "code_points s = map of_char s"

fun is_flate :: "pdf_object \<Rightarrow> bool" where
  \<comment> \<open>\<^verbatim>\<open>str(f) in ("/FlateDecode", "/Fl")\<close>. A name prints as its text and a string
      object as its value; every other class prints through \<^verbatim>\<open>__repr__\<close>, which starts
      with the class name.\<close>
  "is_flate (NameObject n) = (n = ''/FlateDecode'' \<or> n = ''/Fl'')"
| "is_flate (StringObject v) = (v = code_points ''/FlateDecode'' \<or> v = code_points ''/Fl'')"
| "is_flate (HexStringObject v) = (v = code_points ''/FlateDecode'' \<or> v = code_points ''/Fl'')"
| "is_flate x = False"

fun iterate :: "pdf_object \<Rightarrow> pdf_object list outcome" where
  \<comment> \<open>\<^verbatim>\<open>for x in obj\<close>: the elements of a list, the keys of a dict, TypeError otherwise\<close>
  "iterate (ArrayObject xs) = Return xs"
| "iterate (DictionaryObject d) = Return (map fst d)"
| "iterate (StreamObject d raw dec) = Return (map fst d)"
| "iterate x = Raise TypeError"

definition apply_filter :: "(string \<Rightarrow> string option) \<Rightarrow> string \<Rightarrow> pdf_object \<Rightarrow> string" where
  \<comment> \<open>one turn of the loop over the filters; \<^verbatim>\<open>except zlib.error: pass\<close> keeps the data\<close>
  "apply_filter inflate dat f =
     (if is_flate f then (case inflate dat of Some dat' \<Rightarrow> dat' | None \<Rightarrow> dat) else dat)"

definition filter_list :: "pdf_object option \<Rightarrow> pdf_object list outcome" where
  \<comment> \<open>the filters to run: none when \<^verbatim>\<open>/Filter\<close> is missing or false, the name itself,
      the elements of an array, whatever iterating another object gives\<close>
  "filter_list filters =
     (case filters of
        None \<Rightarrow> Return []
      | Some f \<Rightarrow>
          if \<not> truthy f then Return []
          else (case f of NameObject n \<Rightarrow> Return [f] | _ \<Rightarrow> iterate f))"

fun decode_data :: "(string \<Rightarrow> string option) \<Rightarrow> pdf_object \<Rightarrow> (string \<times> pdf_object) outcome" where
  \<comment> \<open>the decoded bytes and the stream with \<^verbatim>\<open>_decoded_data\<close> set\<close>
  "decode_data inflate (StreamObject d raw (Some dec)) = Return (dec, StreamObject d raw (Some dec))"
| "decode_data inflate (StreamObject d raw None) =
     bind (filter_list (dict_get d ''/Filter''))
       (\<lambda>fs. let dat = foldl (apply_filter inflate) raw fs
             in Return (dat, StreamObject d raw (Some dat)))"
| "decode_data inflate x = Raise AttributeError"

section \<open>Conversions to \<^verbatim>\<open>int\<close>\<close>

definition int_of_number :: "number \<Rightarrow> int" where
  \<comment> \<open>\<^verbatim>\<open>int(value)\<close>: a float is cut towards zero\<close>
  "int_of_number v =
     (case v of IntNum i \<Rightarrow> i | RealNum m k \<Rightarrow> sgn m * (\<bar>m\<bar> div 10 ^ k))"

fun no_double_underscore :: "nat list \<Rightarrow> bool" where
  "no_double_underscore (a # b # cs) = (\<not> (a = 95 \<and> b = 95) \<and> no_double_underscore (b # cs))"
| "no_double_underscore cs = True"

definition int_literal :: "(nat \<Rightarrow> bool) \<Rightarrow> nat list \<Rightarrow> int option" where
  \<comment> \<open>\<^verbatim>\<open>int(text)\<close> in base 10, code point by code point: white space around, one
      optional sign, decimal digits with single underscores between them; \<open>None\<close> is
      ValueError. The first argument says what white space is.\<close>
  "int_literal ws s =
     (let t = rev (dropWhile ws (rev (dropWhile ws s)));
          neg = (t \<noteq> [] \<and> hd t = 45);
          body = (if t \<noteq> [] \<and> (hd t = 43 \<or> hd t = 45) then tl t else t);
          ds = filter (\<lambda>c. c \<noteq> 95) body
      in if body \<noteq> [] \<and> hd body \<noteq> 95 \<and> last body \<noteq> 95 \<and> no_double_underscore body
            \<and> list_all (\<lambda>c. 48 \<le> c \<and> c \<le> 57) ds
         then Some ((if neg then - 1 else 1) * foldl (\<lambda>a c. 10 * a + (int c - 48)) 0 ds)
         else None)"

definition is_space_code :: "nat \<Rightarrow> bool" where
  \<comment> \<open>white space of a byte string, as a code point\<close>
  "is_space_code c = (c = 32 \<or> (9 \<le> c \<and> c \<le> 13))"

definition is_unicode_space :: "nat \<Rightarrow> bool" where
  \<comment> \<open>white space of a \<^verbatim>\<open>str\<close>, among the code points below 512\<close>
  "is_unicode_space c = (c = 32 \<or> (9 \<le> c \<and> c \<le> 13) \<or> (28 \<le> c \<and> c \<le> 31) \<or> c = 133 \<or> c = 160)"

definition int_of_bytes :: "string \<Rightarrow> int option" where
  \<comment> \<open>\<^verbatim>\<open>int(b)\<close> for a byte string\<close>
  "int_of_bytes b = int_literal is_space_code (code_points b)"

fun int_of_value :: "pdf_object \<Rightarrow> int outcome" where
  \<comment> \<open>\<^verbatim>\<open>int(x.value if hasattr(x, "value") else x)\<close>: booleans, numbers and strings have
      the attribute; \<^verbatim>\<open>int\<close> of any other object is a TypeError\<close>
  "int_of_value (BooleanObject b) = Return (if b then 1 else 0)"
| "int_of_value (NumberObject v) = Return (int_of_number v)"
| "int_of_value (StringObject t) =
     (case int_literal is_unicode_space t of Some i \<Rightarrow> Return i | None \<Rightarrow> Raise ValueError)"
| "int_of_value (HexStringObject t) =
     (case int_literal is_unicode_space t of Some i \<Rightarrow> Return i | None \<Rightarrow> Raise ValueError)"
| "int_of_value x = Raise TypeError"

fun object_number :: "pdf_object \<Rightarrow> int outcome" where
  \<comment> \<open>\<^verbatim>\<open>ref.object_number if isinstance(ref, IndirectObject) else int(ref)\<close>; only
      \<^verbatim>\<open>NumberObject\<close> defines \<^verbatim>\<open>__int__\<close>\<close>
  "object_number (IndirectObject n g p) = Return n"
| "object_number (NumberObject v) = Return (int_of_number v)"
| "object_number x = Raise TypeError"

section \<open>The reader and the indirect object resolver\<close>

text \<open>
  The fields of \<^verbatim>\<open>PdfReader\<close>: the buffer \<^verbatim>\<open>_data\<close>, the map \<^verbatim>\<open>_xref\<close> from object
  number to (offset, generation), the cache \<^verbatim>\<open>_objects\<close> (whose values may be \<^verbatim>\<open>None\<close>),
  \<^verbatim>\<open>_trailer\<close>, \<^verbatim>\<open>_pages\<close>, \<^verbatim>\<open>_is_encrypted\<close> and \<^verbatim>\<open>_decrypted\<close>. A \<^verbatim>\<open>PageObject\<close> is a
  dictionary with the field \<^verbatim>\<open>pdf\<close> (whether a reader is attached).

  An exception ends the call; the state it leaves behind is not kept.
\<close>

datatype page = PageObject bool dict

record reader =
  rd_data :: string
  rd_xref :: "int \<rightharpoonup> int \<times> int"
  rd_objects :: "int \<rightharpoonup> pdf_object option"
  rd_trailer :: "pdf_object option"
  rd_pages :: "page list option"
  rd_is_encrypted :: bool
  rd_decrypted :: bool

definition match_obj_header :: "string \<Rightarrow> (nat \<times> nat \<times> nat) option" where
  \<comment> \<open>\<^verbatim>\<open>re.match(rb"(\d+)\s+(\d+)\s+obj\s*", s)\<close>: both numbers and the end of the match\<close>
  "match_obj_header s =
     (let d1 = takeWhile is_digit s; r1 = drop (length d1) s;
          w1 = takeWhile is_space r1; r2 = drop (length w1) r1;
          d2 = takeWhile is_digit r2; r3 = drop (length d2) r2;
          w2 = takeWhile is_space r3; r4 = drop (length w2) r3;
          w3 = takeWhile is_space (drop 3 r4)
      in if d1 \<noteq> [] \<and> w1 \<noteq> [] \<and> d2 \<noteq> [] \<and> w2 \<noteq> [] \<and> startswith r4 ''obj''
         then Some (digits_val d1, digits_val d2,
                    length d1 + length w1 + length d2 + length w2 + 3 + length w3)
         else None)"

definition match_stream :: "string \<Rightarrow> nat option" where
  \<comment> \<open>\<^verbatim>\<open>re.match(rb"\s*stream\r?\n", s)\<close>: the end of the match\<close>
  "match_stream s =
     (let w = takeWhile is_space s; r = drop (length w) s; r2 = drop 6 r
      in if startswith r ''stream'' then
           (if startswith r2 [CHR 0x0D, CHR 0x0A] then Some (length w + 8)
            else if startswith r2 [CHR 0x0A] then Some (length w + 7)
            else None)
         else None)"

fun search_endstream :: "string \<Rightarrow> (nat \<times> nat) option" where
  \<comment> \<open>\<^verbatim>\<open>re.search(rb"\r?\nendstream", s)\<close>: start and end of the leftmost match\<close>
  "search_endstream [] = None"
| "search_endstream (c # cs) =
     (if startswith (c # cs) (CHR 0x0D # CHR 0x0A # ''endstream'') then Some (0, 11)
      else if startswith (c # cs) (CHR 0x0A # ''endstream'') then Some (0, 10)
      else map_option (\<lambda>(a, b). (Suc a, Suc b)) (search_endstream cs))"

fun hashable :: "pdf_object \<Rightarrow> bool" where
  \<comment> \<open>lists and dicts cannot be dict keys\<close>
  "hashable (ArrayObject xs) = False"
| "hashable (DictionaryObject d) = False"
| "hashable (StreamObject d raw dec) = False"
| "hashable x = True"

fun update_pair :: "pdf_object \<Rightarrow> (pdf_object \<times> pdf_object) outcome" where
  \<comment> \<open>an element of the sequence given to \<^verbatim>\<open>dict.update\<close>: it must iterate to two items,
      the first of them hashable\<close>
  "update_pair (ArrayObject [k, v]) = (if hashable k then Return (k, v) else Raise TypeError)"
| "update_pair (ArrayObject xs) = Raise ValueError"
| "update_pair (DictionaryObject [(k1, v1), (k2, v2)]) = Return (k1, k2)"
| "update_pair (DictionaryObject d) = Raise ValueError"
| "update_pair (StreamObject [(k1, v1), (k2, v2)] raw dec) = Return (k1, k2)"
| "update_pair (StreamObject d raw dec) = Raise ValueError"
| "update_pair x = Raise TypeError"

fun update_pairs :: "dict \<Rightarrow> pdf_object list \<Rightarrow> dict outcome" where
  "update_pairs d [] = Return d"
| "update_pairs d (x # xs) = bind (update_pair x) (\<lambda>(k, v). update_pairs (dict_set d k v) xs)"

fun stream_update :: "pdf_object \<Rightarrow> dict outcome" where
  \<comment> \<open>\<^verbatim>\<open>stream_obj.update(obj)\<close> on the fresh, empty stream dictionary\<close>
  "stream_update (DictionaryObject d) = Return (dict_update [] d)"
| "stream_update (StreamObject d raw dec) = Return (dict_update [] d)"
| "stream_update (ArrayObject xs) = update_pairs [] xs"
| "stream_update x = Raise TypeError"

definition stream_length_entry :: "pdf_object \<Rightarrow> pdf_object option" where
  \<comment> \<open>\<^verbatim>\<open>obj.get("/Length")\<close> when \<open>obj\<close> is a dictionary; otherwise \<open>length\<close> stays
      \<^verbatim>\<open>None\<close>\<close>
  "stream_length_entry obj =
     (if is_dictionary obj then dict_get (entries obj) ''/Length'' else None)"

definition length_of_ref :: "pdf_object option \<Rightarrow> int option outcome" where
  \<comment> \<open>\<^verbatim>\<open>if length_ref: length = int(length_ref.value if hasattr(length_ref, "value")
      else length_ref)\<close>\<close>
  "length_of_ref length_ref =
     (case length_ref of
        None \<Rightarrow> Return None
      | Some lr \<Rightarrow>
          if truthy lr then bind (int_of_value lr) (\<lambda>l. Return (Some l)) else Return None)"

definition read_stream ::
  "string \<Rightarrow> int \<Rightarrow> nat \<Rightarrow> int option \<Rightarrow> pdf_object \<Rightarrow> (pdf_object option \<times> int) outcome" where
  \<comment> \<open>the rest of \<^verbatim>\<open>_parse_indirect_object\<close> once \<open>length\<close> is known, \<open>idx1\<close> standing
      behind the \<^verbatim>\<open>stream\<close> keyword: the bytes of the stream (\<open>length\<close> of them when it is
      a number other than 0, else those before \<^verbatim>\<open>endstream\<close>), the stream object with the
      entries of \<open>obj\<close>, and the position returned\<close>
  "read_stream data offset idx1 len obj =
     (let (stream_data, idx2) =
            (case (if len = Some 0 then None else len) of
               Some l \<Rightarrow> (py_slice data (int idx1) (int idx1 + l), int idx1 + l)
             | None \<Rightarrow>
                 (case search_endstream (drop idx1 data) of
                    Some (st, en) \<Rightarrow> (slice data idx1 (idx1 + st), int (idx1 + en))
                  | None \<Rightarrow> ([], int idx1)))
      in bind (stream_update obj)
           (\<lambda>d. Return (Some (StreamObject d stream_data None), offset + idx2)))"

text \<open>
  \<^verbatim>\<open>get_object\<close> and \<^verbatim>\<open>_parse_indirect_object\<close> call each other (through an indirect
  \<^verbatim>\<open>/Length\<close>); the first argument bounds the nested calls and is also the budget handed to
  the object parser.
\<close>

function (sequential)
  get_object :: "nat \<Rightarrow> reader \<Rightarrow> pdf_object \<Rightarrow> (pdf_object option \<times> reader) outcome"
  and parse_indirect_object ::
    "nat \<Rightarrow> reader \<Rightarrow> int \<Rightarrow> ((pdf_object option \<times> int) \<times> reader) outcome"
where
  "get_object 0 rd ref = OutOfFuel"
| "get_object (Suc fuel) rd ref =
     (case object_number ref of
        OutOfFuel \<Rightarrow> OutOfFuel
      | Raise e \<Rightarrow> Raise e
      | Return obj_num \<Rightarrow>
          (case rd_objects rd obj_num of
             Some cached \<Rightarrow> Return (cached, rd)
           | None \<Rightarrow>
               (case rd_xref rd obj_num of
                  None \<Rightarrow> Return (None, rd)
                | Some (offset, gen) \<Rightarrow>
                    (case parse_indirect_object fuel rd offset of
                       OutOfFuel \<Rightarrow> OutOfFuel
                     | Raise e \<Rightarrow> Raise e
                     | Return ((obj, e), rd') \<Rightarrow>
                         Return (obj, rd'\<lparr>rd_objects := (rd_objects rd')(obj_num \<mapsto> obj)\<rparr>)))))"
| "parse_indirect_object 0 rd offset = OutOfFuel"
| "parse_indirect_object (Suc fuel) rd offset =
     (let data = py_slice_from (rd_data rd) offset in
      case match_obj_header data of
        None \<Rightarrow> Return ((None, offset), rd)
      | Some (obj_num, gen_num, idx0) \<Rightarrow>
          (case parse_object fuel data idx0 of
             OutOfFuel \<Rightarrow> OutOfFuel
           | Raise e \<Rightarrow> Raise e
           | Return (obj, idx) \<Rightarrow>
               (case match_stream (drop idx data) of
                  None \<Rightarrow> Return ((Some obj, offset + int idx), rd)
                | Some k \<Rightarrow>
                    (case stream_length_entry obj of
                       Some (NumberObject v) \<Rightarrow>
                         bind (read_stream data offset (idx + k) (Some (int_of_number v)) obj)
                           (\<lambda>r. Return (r, rd))
                     | Some (IndirectObject n g p) \<Rightarrow>
                         (case get_object fuel rd (IndirectObject n g p) of
                            OutOfFuel \<Rightarrow> OutOfFuel
                          | Raise e \<Rightarrow> Raise e
                          | Return (length_ref, rd1) \<Rightarrow>
                              bind (length_of_ref length_ref)
                                (\<lambda>len. bind (read_stream data offset (idx + k) len obj)
                                   (\<lambda>r. Return (r, rd1))))
                     | _ \<Rightarrow>
                         bind (read_stream data offset (idx + k) None obj)
                           (\<lambda>r. Return (r, rd))))))"
  by pat_completeness auto
termination
  by (relation "measure (\<lambda>x. case x of Inl (fuel, _) \<Rightarrow> fuel | Inr (fuel, _) \<Rightarrow> fuel)") auto

section \<open>Page tree walker (\<^verbatim>\<open>PdfReader.pages\<close>, \<^verbatim>\<open>_collect_pages\<close>)\<close>

definition obj_get :: "pdf_object \<Rightarrow> string \<Rightarrow> pdf_object option outcome" where
  \<comment> \<open>\<^verbatim>\<open>x.get("/Key")\<close>: only dictionaries (and streams) have the method\<close>
  "obj_get x k = (if is_dictionary x then Return (dict_get (entries x) k) else Raise AttributeError)"

definition new_page :: "dict \<Rightarrow> page" where
  \<comment> \<open>\<^verbatim>\<open>page = PageObject(self); page.update(node)\<close>\<close>
  "new_page node_entries =
     PageObject True (dict_update [(mk_name ''Type'', mk_name ''Page'')] node_entries)"

definition resolve_node :: "nat \<Rightarrow> reader \<Rightarrow> pdf_object \<Rightarrow> (pdf_object option \<times> reader) outcome" where
  \<comment> \<open>\<^verbatim>\<open>if isinstance(node, IndirectObject): node = self.get_object(node)\<close>\<close>
  "resolve_node fuel rd node =
     (case node of
        IndirectObject n g p \<Rightarrow> get_object fuel rd node
      | _ \<Rightarrow> Return (Some node, rd))"

definition kids_of :: "nat \<Rightarrow> reader \<Rightarrow> dict \<Rightarrow> (pdf_object list \<times> reader) outcome" where
  \<comment> \<open>\<^verbatim>\<open>kids = node.get("/Kids", [])\<close>, resolved when it is a reference, and what the
      \<^verbatim>\<open>for\<close> loop iterates over (iterating \<^verbatim>\<open>None\<close> is a TypeError)\<close>
  "kids_of fuel rd d =
     (case dict_get d ''/Kids'' of
        None \<Rightarrow> Return ([], rd)
      | Some kids0 \<Rightarrow>
          bind (resolve_node fuel rd kids0)
            (\<lambda>(kids, rd1).
               case kids of
                 None \<Rightarrow> Raise TypeError
               | Some ks \<Rightarrow> bind (iterate ks) (\<lambda>xs. Return (xs, rd1))))"

definition append_page :: "reader \<Rightarrow> dict \<Rightarrow> reader outcome" where
  \<comment> \<open>\<^verbatim>\<open>self._pages.append(page)\<close>\<close>
  "append_page rd node_entries =
     (case rd_pages rd of
        None \<Rightarrow> Raise AttributeError
      | Some ps \<Rightarrow> Return (rd\<lparr>rd_pages := Some (ps @ [new_page node_entries])\<rparr>))"

text \<open>
  \<^verbatim>\<open>_collect_pages\<close> with the loop over the kids. The source keeps no record of the
  nodes it has visited; the first argument bounds the nested calls.
\<close>

function (sequential)
  collect_pages :: "nat \<Rightarrow> reader \<Rightarrow> pdf_object \<Rightarrow> reader outcome"
  and collect_kids :: "nat \<Rightarrow> reader \<Rightarrow> pdf_object list \<Rightarrow> reader outcome"
where
  "collect_pages 0 rd node0 = OutOfFuel"
| "collect_pages (Suc fuel) rd node0 =
     (case resolve_node fuel rd node0 of
        OutOfFuel \<Rightarrow> OutOfFuel
      | Raise e \<Rightarrow> Raise e
      | Return (None, rd1) \<Rightarrow> Return rd1
      | Return (Some nd, rd1) \<Rightarrow>
          if \<not> truthy nd \<or> \<not> is_dictionary nd then Return rd1
          else if dict_get (entries nd) ''/Type'' = Some (mk_name ''Page'')
            then append_page rd1 (entries nd)
          else if dict_get (entries nd) ''/Type'' = Some (mk_name ''Pages'')
            then bind (kids_of fuel rd1 (entries nd))
                   (\<lambda>(kids, rd2). collect_kids fuel rd2 kids)
          else Return rd1)"
| "collect_kids 0 rd kids = OutOfFuel"
| "collect_kids (Suc fuel) rd [] = Return rd"
| "collect_kids (Suc fuel) rd (kid # kids) =
     bind (collect_pages fuel rd kid) (\<lambda>rd'. collect_kids fuel rd' kids)"
  by pat_completeness auto
termination
  by (relation "measure (\<lambda>x. case x of Inl (fuel, _) \<Rightarrow> fuel | Inr (fuel, _) \<Rightarrow> fuel)") auto

definition pages :: "nat \<Rightarrow> reader \<Rightarrow> (page list option \<times> reader) outcome" where
  \<comment> \<open>the property \<^verbatim>\<open>pages\<close>: every \<^verbatim>\<open>return self._pages\<close> gives the field as it is\<close>
  "pages fuel rd =
     (case rd_pages rd of
        Some ps \<Rightarrow> Return (Some ps, rd)
      | None \<Rightarrow>
          (let rd0 = rd\<lparr>rd_pages := Some []\<rparr> in
           case rd_trailer rd0 of
             None \<Rightarrow> Return (rd_pages rd0, rd0)
           | Some trailer \<Rightarrow>
               if \<not> truthy trailer then Return (rd_pages rd0, rd0)
               else
                 bind (obj_get trailer ''/Root'')
                   (\<lambda>root_ref.
                      case root_ref of
                        None \<Rightarrow> Return (rd_pages rd0, rd0)
                      | Some rr \<Rightarrow>
                          if \<not> truthy rr then Return (rd_pages rd0, rd0)
                          else
                            bind (get_object fuel rd0 rr)
                              (\<lambda>(root, rd1).
                                 case root of
                                   None \<Rightarrow> Return (rd_pages rd1, rd1)
                                 | Some rt \<Rightarrow>
                                     if \<not> truthy rt then Return (rd_pages rd1, rd1)
                                     else
                                       bind (obj_get rt ''/Pages'')
                                         (\<lambda>pages_ref.
                                            case pages_ref of
                                              None \<Rightarrow> Return (rd_pages rd1, rd1)
                                            | Some pr \<Rightarrow>
                                                if \<not> truthy pr then Return (rd_pages rd1, rd1)
                                                else
                                                  bind (get_object fuel rd1 pr)
                                                    (\<lambda>(pgs, rd2).
                                                       case pgs of
                                                         None \<Rightarrow> Return (rd_pages rd2, rd2)
                                                       | Some pg \<Rightarrow>
                                                           if \<not> truthy pg then Return (rd_pages rd2, rd2)
                                                           else
                                                             bind (collect_pages fuel rd2 pg)
                                                               (\<lambda>rd3. Return (rd_pages rd3, rd3))))))))"

section \<open>Pages (\<^verbatim>\<open>PageObject.mediabox\<close>)\<close>





section \<open>Cross-reference resolver (\<^verbatim>\<open>_parse_xref\<close>, \<^verbatim>\<open>_parse_xref_table\<close>, \<^verbatim>\<open>_parse_xref_stream\<close>)\<close>

subsection \<open>Classic tables\<close>

definition strip :: "string \<Rightarrow> string" where
  \<comment> \<open>\<^verbatim>\<open>bytes.strip()\<close>\<close>
  "strip s = rev (dropWhile is_space (rev (dropWhile is_space s)))"

fun split_acc :: "string \<Rightarrow> string \<Rightarrow> string list" where
  "split_acc cur [] = (if cur = [] then [] else [cur])"
| "split_acc cur (c # cs) =
     (if is_space c then (if cur = [] then split_acc [] cs else cur # split_acc [] cs)
      else split_acc (cur @ [c]) cs)"

definition split :: "string \<Rightarrow> string list" where
  \<comment> \<open>\<^verbatim>\<open>bytes.split()\<close>: the runs of bytes between white space\<close>
  "split s = split_acc [] s"

definition entry_fields :: "string \<Rightarrow> (int \<times> int \<times> string) option" where
  \<comment> \<open>the offset, the generation and the type byte of an entry of at least 18 bytes;
      \<open>None\<close> when the entry is shorter or an \<^verbatim>\<open>int\<close> raises ValueError, which the source
      catches\<close>
  "entry_fields entry_line =
     (if length entry_line \<ge> 18 then
        (case int_of_bytes (slice entry_line 0 10) of
           None \<Rightarrow> None
         | Some entry_offset \<Rightarrow>
             (case int_of_bytes (slice entry_line 11 16) of
                None \<Rightarrow> None
              | Some entry_gen \<Rightarrow> Some (entry_offset, entry_gen, slice entry_line 17 18)))
      else None)"

definition xref_entry :: "string \<Rightarrow> int \<Rightarrow> (int \<rightharpoonup> int \<times> int) \<Rightarrow> (int \<rightharpoonup> int \<times> int)" where
  \<comment> \<open>the body of the loop over the entries of a subsection: an in-use entry is stored
      unless its object number is in the map already\<close>
  "xref_entry entry_line obj_num xr =
     (case entry_fields entry_line of
        None \<Rightarrow> xr
      | Some (entry_offset, entry_gen, entry_type) \<Rightarrow>
          if entry_type = ''n'' \<and> xr obj_num = None
          then xr(obj_num \<mapsto> (entry_offset, entry_gen))
          else xr)"

fun xref_entries ::
  "string \<Rightarrow> int \<Rightarrow> nat \<Rightarrow> nat \<Rightarrow> nat \<Rightarrow> (int \<rightharpoonup> int \<times> int) \<Rightarrow> (int \<rightharpoonup> int \<times> int)" where
  \<comment> \<open>\<^verbatim>\<open>for i in range(count)\<close>, from entry \<open>i\<close> with \<open>n\<close> entries to go; every turn moves
      \<open>idx\<close> by 20\<close>
  "xref_entries data start_obj i 0 idx xr = xr"
| "xref_entries data start_obj i (Suc n) idx xr =
     xref_entries data start_obj (i + 1) n (idx + 20)
       (xref_entry (slice data idx (idx + 20)) (start_obj + int i) xr)"

function xref_lines ::
  "string \<Rightarrow> nat \<Rightarrow> (int \<rightharpoonup> int \<times> int) \<Rightarrow> nat \<times> (int \<rightharpoonup> int \<times> int)" where
  \<comment> \<open>the \<^verbatim>\<open>while True\<close> loop over the lines of the table: \<open>idx\<close> and the map when it
      ends\<close>
  "xref_lines data idx xr =
     (case find_from data [CHR 0x0A] idx of
        None \<Rightarrow> (idx, xr)
      | Some line_end \<Rightarrow>
          (let line = strip (slice data idx line_end) in
           if startswith line ''trailer'' then (line_end + 1, xr)
           else if line = [] \<or> line = ''xref'' then xref_lines data (line_end + 1) xr
           else
             (case split line of
                [p0, p1] \<Rightarrow>
                  (case int_of_bytes p0 of
                     None \<Rightarrow> xref_lines data (line_end + 1) xr
                   | Some start_obj \<Rightarrow>
                       (case int_of_bytes p1 of
                          None \<Rightarrow> xref_lines data (line_end + 1) xr
                        | Some count \<Rightarrow>
                            xref_lines data (line_end + 1 + 20 * nat count)
                              (xref_entries data start_obj 0 (nat count) (line_end + 1) xr)))
              | _ \<Rightarrow> xref_lines data (line_end + 1) xr)))"
  by pat_completeness auto
termination
proof (relation "measure (\<lambda>(data, idx, xr). length data - idx)", goal_cases)
  case 1
  show ?case by simp
next
  have fp: "\<And>s p k. find_prefix s p = Some k \<Longrightarrow> k < length s"
  proof -
    fix s :: string and p k
    show "find_prefix s p = Some k \<Longrightarrow> k < length s"
      by (induction s arbitrary: k) (auto split: if_splits)
  qed
  have ff: "\<And>data p idx e. find_from data p idx = Some e \<Longrightarrow> idx \<le> e \<and> e < length data"
  proof -
    fix data :: string and p idx e
    assume "find_from data p idx = Some e"
    then obtain k where k: "find_prefix (drop idx data) p = Some k" and e: "e = idx + k"
      by (auto simp: find_from_def)
    from fp[OF k] e show "idx \<le> e \<and> e < length data" by auto
  qed
  {
    case 2
    then show ?case using ff by fastforce
  next
    case 3
    then show ?case using ff by fastforce
  next
    case 4
    then show ?case using ff by fastforce
  next
    case 5
    then show ?case using ff by fastforce
  next
    case 6
    then show ?case using ff by fastforce
  next
    case 7
    then show ?case using ff by fastforce
  next
    case 8
    then show ?case using ff by fastforce
  }
qed

declare xref_lines.simps [simp del]

definition match_trailer :: "string \<Rightarrow> string option" where
  \<comment> \<open>\<^verbatim>\<open>trailer\s*<<(.+?)>>\<close> (with DOTALL) at the start of \<open>s\<close>: the group, which is
      not empty and ends before the first \<^verbatim>\<open>>>\<close> that leaves it so\<close>
  "match_trailer s =
     (if startswith s ''trailer'' then
        (let r = dropWhile is_space (drop 7 s) in
         if startswith r ''<<'' then
           (case find_prefix (drop 3 r) ''>>'' of
              Some k \<Rightarrow> Some (take (Suc k) (drop 2 r))
            | None \<Rightarrow> None)
         else None)
      else None)"

fun search_trailer :: "string \<Rightarrow> string option" where
  \<comment> \<open>\<^verbatim>\<open>re.search\<close> of that expression: the leftmost start that matches\<close>
  "search_trailer [] = None"
| "search_trailer (c # cs) =
     (case match_trailer (c # cs) of Some g \<Rightarrow> Some g | None \<Rightarrow> search_trailer cs)"

subsection \<open>Cross-reference streams\<close>

definition from_bytes :: "string \<Rightarrow> int" where
  \<comment> \<open>\<^verbatim>\<open>int.from_bytes(b, "big")\<close>\<close>
  "from_bytes b = foldl (\<lambda>a c. 256 * a + int (of_char c)) 0 b"

fun int_of_value_attr :: "pdf_object \<Rightarrow> int outcome" where
  \<comment> \<open>\<^verbatim>\<open>int(x.value)\<close>: AttributeError where the class has no \<^verbatim>\<open>value\<close>\<close>
  "int_of_value_attr (BooleanObject b) = Return (if b then 1 else 0)"
| "int_of_value_attr (NumberObject v) = Return (int_of_number v)"
| "int_of_value_attr (StringObject t) =
     (case int_literal is_unicode_space t of Some i \<Rightarrow> Return i | None \<Rightarrow> Raise ValueError)"
| "int_of_value_attr (HexStringObject t) =
     (case int_literal is_unicode_space t of Some i \<Rightarrow> Return i | None \<Rightarrow> Raise ValueError)"
| "int_of_value_attr x = Raise AttributeError"

fun map_outcome :: "('a \<Rightarrow> 'b outcome) \<Rightarrow> 'a list \<Rightarrow> 'b list outcome" where
  \<comment> \<open>a list comprehension whose items may raise: the first exception ends it\<close>
  "map_outcome f [] = Return []"
| "map_outcome f (x # xs) = bind (f x) (\<lambda>y. bind (map_outcome f xs) (\<lambda>ys. Return (y # ys)))"

definition stream_w :: "dict \<Rightarrow> int list outcome" where
  \<comment> \<open>\<^verbatim>\<open>w = obj.get("/W", [1, 2, 1])\<close> and the conversion of its items\<close>
  "stream_w d =
     (case dict_get d ''/W'' of
        None \<Rightarrow> Return [1, 2, 1]
      | Some w \<Rightarrow> bind (iterate w) (map_outcome int_of_value))"

definition stream_size :: "dict \<Rightarrow> int outcome" where
  \<comment> \<open>\<^verbatim>\<open>int(obj.get("/Size", NumberObject(0)).value)\<close>\<close>
  "stream_size d =
     (case dict_get d ''/Size'' of None \<Rightarrow> Return 0 | Some x \<Rightarrow> int_of_value_attr x)"

fun index_pairs :: "pdf_object list \<Rightarrow> (int \<times> int) list outcome" where
  \<comment> \<open>\<^verbatim>\<open>[(int(index[i].value), int(index[i + 1].value)) for i in range(0, len(index), 2)]\<close>
      on a list; a last item without a partner is read, then \<^verbatim>\<open>index[i + 1]\<close> is an
      IndexError\<close>
  "index_pairs [] = Return []"
| "index_pairs [a] = bind (int_of_value_attr a) (\<lambda>x. Raise IndexError)"
| "index_pairs (a # b # xs) =
     bind (int_of_value_attr a)
       (\<lambda>x. bind (int_of_value_attr b)
          (\<lambda>y. bind (index_pairs xs) (\<lambda>r. Return ((x, y) # r))))"

definition stream_subsections :: "dict \<Rightarrow> int \<Rightarrow> (int \<times> int) list outcome" where
  \<comment> \<open>the subsections named by \<^verbatim>\<open>/Index\<close>, \<^verbatim>\<open>[(0, size)]\<close> when it is missing or false.
      A dict has a length but no integer keys (KeyError); the other true objects have no
      length (TypeError).\<close>
  "stream_subsections d sz =
     (case dict_get d ''/Index'' of
        None \<Rightarrow> Return [(0, sz)]
      | Some ix \<Rightarrow>
          if \<not> truthy ix then Return [(0, sz)]
          else (case ix of
                  ArrayObject xs \<Rightarrow> index_pairs xs
                | DictionaryObject d' \<Rightarrow> Raise KeyError
                | StreamObject d' raw dec \<Rightarrow> Raise KeyError
                | _ \<Rightarrow> Raise TypeError))"

fun read_fields :: "string \<Rightarrow> int list \<Rightarrow> int \<Rightarrow> int list \<times> int" where
  \<comment> \<open>\<^verbatim>\<open>for width in w\<close>: the fields of one entry and \<open>data_idx\<close> behind it\<close>
  "read_fields data [] data_idx = ([], data_idx)"
| "read_fields data (width # ws) data_idx =
     (if width = 0 then
        (let (flds, data_idx') = read_fields data ws data_idx in (0 # flds, data_idx'))
      else
        (let val = from_bytes (py_slice data data_idx (data_idx + width));
             (flds, data_idx') = read_fields data ws (data_idx + width)
         in (val # flds, data_idx')))"

definition stream_entry ::
  "int list \<Rightarrow> int list \<Rightarrow> int \<Rightarrow> (int \<rightharpoonup> int \<times> int) \<Rightarrow> (int \<rightharpoonup> int \<times> int) outcome" where
  \<comment> \<open>what one entry does to the map, from \<^verbatim>\<open>entry_type = fields[0] if w[0] > 0 else 1\<close>
      on; \<^verbatim>\<open>w[0]\<close> of an empty \<open>w\<close> and \<^verbatim>\<open>fields[1]\<close> of a single field are IndexErrors\<close>
  "stream_entry w flds obj_num xr =
     (case w of
        [] \<Rightarrow> Raise IndexError
      | w0 # ws \<Rightarrow>
          (case flds of
             [] \<Rightarrow> Raise IndexError
           | f0 # fs \<Rightarrow>
               if (if w0 > 0 then f0 else 1) = 1 \<and> xr obj_num = None then
                 (case fs of
                    [] \<Rightarrow> Raise IndexError
                  | f1 # fs' \<Rightarrow>
                      Return (xr(obj_num \<mapsto> (f1, case fs' of [] \<Rightarrow> 0 | f2 # fs'' \<Rightarrow> f2))))
               else Return xr))"

fun stream_entries ::
  "string \<Rightarrow> int list \<Rightarrow> int \<Rightarrow> nat \<Rightarrow> nat \<Rightarrow> int \<Rightarrow> (int \<rightharpoonup> int \<times> int)
     \<Rightarrow> (int \<times> (int \<rightharpoonup> int \<times> int)) outcome" where
  \<comment> \<open>\<^verbatim>\<open>for i in range(count)\<close> of one subsection, from entry \<open>i\<close> with \<open>n\<close> entries to
      go; \<^verbatim>\<open>break\<close> when the data ends\<close>
  "stream_entries data w start i 0 data_idx xr = Return (data_idx, xr)"
| "stream_entries data w start i (Suc n) data_idx xr =
     (if data_idx + sum_list w > int (length data) then Return (data_idx, xr)
      else
        (let (flds, data_idx') = read_fields data w data_idx in
         bind (stream_entry w flds (start + int i) xr)
           (\<lambda>xr'. stream_entries data w start (i + 1) n data_idx' xr')))"

fun stream_sections ::
  "string \<Rightarrow> int list \<Rightarrow> (int \<times> int) list \<Rightarrow> int \<Rightarrow> (int \<rightharpoonup> int \<times> int)
     \<Rightarrow> (int \<rightharpoonup> int \<times> int) outcome" where
  \<comment> \<open>\<^verbatim>\<open>for start, count in subsections\<close>\<close>
  "stream_sections data w [] data_idx xr = Return xr"
| "stream_sections data w ((start, count) # subs) data_idx xr =
     bind (stream_entries data w start 0 (nat count) data_idx xr)
       (\<lambda>(data_idx', xr'). stream_sections data w subs data_idx' xr')"

subsection \<open>The chain of sections\<close>

definition prev_offset :: "pdf_object \<Rightarrow> int option outcome" where
  \<comment> \<open>\<^verbatim>\<open>prev = trailer.get("/Prev")\<close> and, when it is true, its conversion to \<^verbatim>\<open>int\<close>\<close>
  "prev_offset trailer =
     bind (obj_get trailer ''/Prev'')
       (\<lambda>prev. case prev of
                 None \<Rightarrow> Return None
               | Some pv \<Rightarrow>
                   if truthy pv then bind (int_of_value pv) (\<lambda>i. Return (Some i))
                   else Return None)"

definition table_section :: "nat \<Rightarrow> reader \<Rightarrow> int \<Rightarrow> (reader \<times> int option) outcome" where
  \<comment> \<open>\<^verbatim>\<open>_parse_xref_table\<close> up to the recursive call: the reader with the entries and the
      trailer of this section, and the offset of the previous section if there is one\<close>
  "table_section fuel rd offset =
     (let data = py_slice_from (rd_data rd) offset;
          idx0 = (case find_from data [CHR 0x0A] 4 of None \<Rightarrow> 0 | Some e \<Rightarrow> e + 1);
          (idx, xr) = xref_lines data idx0 (rd_xref rd);
          rd1 = rd\<lparr>rd_xref := xr\<rparr>
      in case search_trailer (py_slice_from data (int idx - 100)) of
           None \<Rightarrow> Return (rd1, None)
         | Some grp \<Rightarrow>
             bind (parse_object fuel (''<<'' @ grp @ ''>>'') 0)
               (\<lambda>(trailer, e).
                  let rd2 = rd1\<lparr>rd_trailer := Some trailer\<rparr> in
                  if truthy trailer
                  then bind (prev_offset trailer) (\<lambda>prev. Return (rd2, prev))
                  else Return (rd2, None)))"

definition stream_section ::
  "(string \<Rightarrow> string option) \<Rightarrow> nat \<Rightarrow> reader \<Rightarrow> int \<Rightarrow> (reader \<times> int option) outcome" where
  \<comment> \<open>\<^verbatim>\<open>_parse_xref_stream\<close> up to the recursive call. The trailer is the stream object
      itself, so it carries the decoded data once \<^verbatim>\<open>decode_data\<close> has run.\<close>
  "stream_section inflate fuel rd offset =
     bind (parse_indirect_object fuel rd offset)
       (\<lambda>((obj, e), rd1).
          case obj of
            Some (StreamObject d raw dec) \<Rightarrow>
              bind (decode_data inflate (StreamObject d raw dec))
                (\<lambda>(data, obj').
                   bind (stream_w d)
                     (\<lambda>w. bind (stream_size d)
                        (\<lambda>sz. bind (stream_subsections d sz)
                           (\<lambda>subsections.
                              bind (stream_sections data w subsections 0 (rd_xref rd1))
                                (\<lambda>xr. bind (prev_offset obj')
                                   (\<lambda>prev.
                                      Return (rd1\<lparr>rd_xref := xr, rd_trailer := Some obj'\<rparr>,
                                              prev)))))))
          | _ \<Rightarrow> Raise (PdfReadError ''Invalid xref stream''))"

text \<open>
  \<^verbatim>\<open>_parse_xref\<close> and its two branches, each ending in the recursive call on \<^verbatim>\<open>/Prev\<close>.
  The source keeps no record of the offsets it has visited; the second argument bounds the
  nested calls.
\<close>

function (sequential)
  parse_xref :: "(string \<Rightarrow> string option) \<Rightarrow> nat \<Rightarrow> reader \<Rightarrow> int \<Rightarrow> reader outcome"
  and parse_xref_table :: "(string \<Rightarrow> string option) \<Rightarrow> nat \<Rightarrow> reader \<Rightarrow> int \<Rightarrow> reader outcome"
  and parse_xref_stream :: "(string \<Rightarrow> string option) \<Rightarrow> nat \<Rightarrow> reader \<Rightarrow> int \<Rightarrow> reader outcome"
where
  "parse_xref inflate 0 rd offset = OutOfFuel"
| "parse_xref inflate (Suc fuel) rd offset =
     (if startswith (py_slice_from (rd_data rd) offset) ''xref''
      then parse_xref_table inflate fuel rd offset
      else parse_xref_stream inflate fuel rd offset)"
| "parse_xref_table inflate 0 rd offset = OutOfFuel"
| "parse_xref_table inflate (Suc fuel) rd offset =
     (case table_section fuel rd offset of
        OutOfFuel \<Rightarrow> OutOfFuel
      | Raise e \<Rightarrow> Raise e
      | Return (rd1, None) \<Rightarrow> Return rd1
      | Return (rd1, Some prev) \<Rightarrow> parse_xref inflate fuel rd1 prev)"
| "parse_xref_stream inflate 0 rd offset = OutOfFuel"
| "parse_xref_stream inflate (Suc fuel) rd offset =
     (case stream_section inflate fuel rd offset of
        OutOfFuel \<Rightarrow> OutOfFuel
      | Raise e \<Rightarrow> Raise e
      | Return (rd1, None) \<Rightarrow> Return rd1
      | Return (rd1, Some prev) \<Rightarrow> parse_xref inflate fuel rd1 prev)"
  by pat_completeness auto
termination
  by (relation "measure (\<lambda>x. case x of Inl (i, fuel, _) \<Rightarrow> fuel
                                   | Inr (Inl (i, fuel, _)) \<Rightarrow> fuel
                                   | Inr (Inr (i, fuel, _)) \<Rightarrow> fuel)") auto

section \<open>Opening a document (\<^verbatim>\<open>PdfReader.__init__\<close>, \<^verbatim>\<open>_parse\<close>)\<close>

definition match_startxref :: "string \<Rightarrow> string option" where
  \<comment> \<open>\<^verbatim>\<open>startxref\s+(\d+)\<close> at the start of \<open>s\<close>: the digits\<close>
  "match_startxref s =
     (if startswith s ''startxref'' then
        (let r = drop 9 s; w = takeWhile is_space r; ds = takeWhile is_digit (drop (length w) r)
         in if w \<noteq> [] \<and> ds \<noteq> [] then Some ds else None)
      else None)"

fun search_startxref :: "string \<Rightarrow> string option" where
  \<comment> \<open>\<^verbatim>\<open>re.search(rb"startxref\s+(\d+)", s)\<close>\<close>
  "search_startxref [] = None"
| "search_startxref (c # cs) =
     (case match_startxref (c # cs) of Some ds \<Rightarrow> Some ds | None \<Rightarrow> search_startxref cs)"

definition parse :: "(string \<Rightarrow> string option) \<Rightarrow> nat \<Rightarrow> reader \<Rightarrow> reader outcome" where
  "parse inflate fuel rd =
     (case search_startxref (py_slice_from (rd_data rd) (- 1024)) of
        None \<Rightarrow> Raise (PdfReadError ''Cannot find startxref'')
      | Some ds \<Rightarrow>
          bind (parse_xref inflate fuel rd (int (digits_val ds)))
            (\<lambda>rd1.
               case rd_trailer rd1 of
                 None \<Rightarrow> Return rd1
               | Some trailer \<Rightarrow>
                   if truthy trailer then
                     bind (obj_get trailer ''/Encrypt'')
                       (\<lambda>encrypt.
                          if truthy_opt encrypt then Return (rd1\<lparr>rd_is_encrypted := True\<rparr>)
                          else Return rd1)
                   else Return rd1))"

definition decrypt :: "reader \<Rightarrow> reader" where
  "decrypt rd = (if \<not> rd_is_encrypted rd then rd else rd\<lparr>rd_decrypted := True\<rparr>)"

definition new_reader :: "string \<Rightarrow> reader" where
  \<comment> \<open>the fields as \<^verbatim>\<open>__init__\<close> sets them before parsing\<close>
  "new_reader data =
     \<lparr>rd_data = data, rd_xref = Map.empty, rd_objects = Map.empty, rd_trailer = None,
      rd_pages = None, rd_is_encrypted = False, rd_decrypted = False\<rparr>"

definition init ::
  "(string \<Rightarrow> string option) \<Rightarrow> nat \<Rightarrow> string \<Rightarrow> string option \<Rightarrow> reader outcome" where
  \<comment> \<open>\<^verbatim>\<open>PdfReader(stream, password=...)\<close> for a \<open>stream\<close> that is, or reads as, the bytes
      \<open>data\<close>\<close>
  "init inflate fuel data password =
     (if data = [] then Raise EmptyFileError
      else bind (parse inflate fuel (new_reader data))
             (\<lambda>rd. if rd_is_encrypted rd \<and> password \<noteq> None \<and> password \<noteq> Some []
                   then Return (decrypt rd) else Return rd))"

section \<open>Example inputs\<close>

definition no_zlib :: "string \<Rightarrow> string option" where
  \<comment> \<open>an \<open>inflate\<close> that rejects every input, for documents without compressed streams\<close>
  "no_zlib s = None"

definition with_generations :: "(int \<Rightarrow> int \<Rightarrow> int) \<Rightarrow> reader \<Rightarrow> reader" where
  \<comment> \<open>the reader with the generation of every entry of \<^verbatim>\<open>_xref\<close> replaced\<close>
  "with_generations h rd =
     rd\<lparr>rd_xref := (\<lambda>n. map_option (\<lambda>(off, gen). (off, h n gen)) (rd_xref rd n))\<rparr>"

definition tiny_data :: string where
  "tiny_data = ''1 0 obj true endobj''"

definition tiny_reader :: reader where
  \<comment> \<open>a reader on a buffer that holds one object, listed at offset 0\<close>
  "tiny_reader = (new_reader tiny_data)\<lparr>rd_xref := [1 \<mapsto> (0, 0)]\<rparr>"

definition bare_startxref :: string where
  \<comment> \<open>a buffer whose \<^verbatim>\<open>startxref\<close> points at neither a table nor an object\<close>
  "bare_startxref = ''startxref 0''"

definition number_at_target :: string where
  \<comment> \<open>a buffer whose \<^verbatim>\<open>startxref\<close> points at an object that is no stream\<close>
  "number_at_target = ''1 0 obj 5 endobj startxref 0''"

definition no_startxref :: string where
  "no_startxref = ''%PDF-1.4 1 0 obj 5 endobj''"






section \<open>Predicates of the statements\<close>








section \<open>Properties\<close>

subsection \<open>The object parser on numbers and references\<close>

lemma slice_Cons:
  "idx < length data \<Longrightarrow>
   slice data idx (idx + Suc k) = data ! idx # slice data (Suc idx) (idx + Suc k)"
proof -
  assume a: "idx < length data"
  have "idx < length (take (idx + Suc k) data)" using a by simp
  from Cons_nth_drop_Suc[OF this] a show ?thesis by (simp add: slice_def)
qed

lemma digit_not_ws: "is_digit c \<Longrightarrow> \<not> is_pdf_ws c"
  by (auto simp: is_digit_def is_pdf_ws_def)

lemma skip_ws_digit: "idx < length data \<Longrightarrow> is_digit (data ! idx) \<Longrightarrow> skip_ws data idx = idx"
  by (subst skip_ws.simps) (simp add: digit_not_ws)

lemma match_number_digit: "is_digit c \<Longrightarrow> \<exists>t. match_number (c # cs) = Some t"
  by (auto simp: match_number_def is_digit_def Let_def split: list.splits)

text \<open>
  Wherever the cursor stands on a digit, the number branch of \<^verbatim>\<open>_parse_object\<close> matches
  and returns: the reference branch behind it is never reached from a digit.
\<close>

lemma parse_object_digit_is_number:
  assumes "idx < length data" and "is_digit (data ! idx)"
  shows "\<exists>n e. parse_object (Suc fuel) data idx = Return (NumberObject n, e)"
proof -
  have sk: "skip_ws data idx = idx" using assms by (rule skip_ws_digit)
  have dr: "drop idx data = data ! idx # drop (Suc idx) data"
    using assms(1) by (simp add: Cons_nth_drop_Suc)
  obtain t where t: "match_number (drop idx data) = Some t"
    using match_number_digit[OF assms(2)] dr by metis
  have n4: "slice data idx (idx + 4) \<noteq> ''null''" "slice data idx (idx + 4) \<noteq> ''true''"
    using slice_Cons[OF assms(1), of 3] assms(2) by (auto simp: is_digit_def)
  have n5: "slice data idx (idx + 5) \<noteq> ''false''"
    using slice_Cons[OF assms(1), of 4] assms(2) by (auto simp: is_digit_def)
  have ns: "is_number_start (data ! idx)" using assms(2) by (simp add: is_number_start_def)
  show ?thesis
    using assms(1) by (simp add: sk n4 n5 ns t Let_def)
qed

text \<open>
  C1. Claimed: on a bare \<^verbatim>\<open>5 0 R\<close> the object parser returns the indirect reference
  (5, 0). The code returns the plain number 5 and leaves the cursor behind the first
  digit, with any budget of nested calls.
\<close>

theorem parse_object_bare_reference:
  "parse_object (Suc fuel) ''5 0 R'' 0 = Return (NumberObject (IntNum 5), 1)"
  by code_simp

subsection \<open>Stream filters\<close>

lemma foldl_apply_filter_invalid:
  "inflate raw = None \<Longrightarrow> foldl (apply_filter inflate) raw fs = raw"
  by (induction fs) (simp_all add: apply_filter_def)

text \<open>
  C7. A stream whose \<^verbatim>\<open>/Filter\<close> is the name \<^verbatim>\<open>/FlateDecode\<close> or \<^verbatim>\<open>/Fl\<close> and whose raw
  bytes zlib rejects decodes to its raw bytes: \<^verbatim>\<open>decode_data\<close> returns them, raises
  nothing, and caches them. The cache \<^verbatim>\<open>_decoded_data\<close> is empty, as the parser leaves it,
  or holds what an earlier call stored.
\<close>

theorem decode_data_flate_fallback:
  assumes "dict_get d ''/Filter'' = Some (NameObject f)"
    and "f = ''/FlateDecode'' \<or> f = ''/Fl''"
    and "inflate raw = None"
    and "dec = None \<or> dec = Some raw"
  shows "decode_data inflate (StreamObject d raw dec) = Return (raw, StreamObject d raw (Some raw))"
  using assms by (auto simp: filter_list_def bind_def apply_filter_def)

theorem decode_data_flate_fallback_witness:
  "decode_data no_zlib
     (StreamObject [(NameObject ''/Filter'', NameObject ''/FlateDecode'')] ''not zlib'' None)
   = Return (''not zlib'',
       StreamObject [(NameObject ''/Filter'', NameObject ''/FlateDecode'')] ''not zlib''
         (Some ''not zlib''))"
  using decode_data_flate_fallback [of "[(NameObject ''/Filter'', NameObject ''/FlateDecode'')]"
      "''/FlateDecode''" no_zlib "''not zlib''" None]
  by (simp add: dict_get_def no_zlib_def)

subsection \<open>The indirect object resolver\<close>

lemma with_generations_simps [simp]:
  "rd_data (with_generations h rd) = rd_data rd"
  "rd_objects (with_generations h rd) = rd_objects rd"
  "rd_xref (with_generations h rd) n = map_option (\<lambda>(off, gen). (off, h n gen)) (rd_xref rd n)"
  "with_generations h (rd\<lparr>rd_objects := ob\<rparr>) = (with_generations h rd)\<lparr>rd_objects := ob\<rparr>"
  by (simp_all add: with_generations_def)

text \<open>
  Whatever generations the entries of \<^verbatim>\<open>_xref\<close> carry, the resolver and the parser of
  indirect objects return the same values and leave the same cache.
\<close>

lemma generations_unused:
  "get_object fuel (with_generations h rd) ref
     = bind (get_object fuel rd ref) (\<lambda>(v, r). Return (v, with_generations h r))"
  "parse_indirect_object fuel (with_generations h rd) offset
     = bind (parse_indirect_object fuel rd offset) (\<lambda>(x, r). Return (x, with_generations h r))"
proof (induction fuel rd ref and fuel rd offset rule: get_object_parse_indirect_object.induct)
  case (1 rd ref)
  then show ?case by (simp add: bind_def)
next
  case (2 fuel rd ref)
  show ?case
    using 2 by (auto simp: bind_def split: outcome.splits option.splits prod.splits)
next
  case (3 rd offset)
  then show ?case by (simp add: bind_def)
next
  case (4 fuel rd offset)
  show ?case
    using 4
    by (auto simp: bind_def Let_def
             split: outcome.splits option.splits prod.splits pdf_object.splits)
qed

text \<open>Unfolding one level of the resolver at a budget written as a numeral.\<close>

lemmas get_object_numeral =
  get_object.simps(2)[of "pred_numeral k", folded numeral_eq_Suc] for k

lemmas parse_indirect_object_numeral =
  parse_indirect_object.simps(2)[of "pred_numeral k", folded numeral_eq_Suc] for k

lemma tiny_data_facts:
  "py_slice_from tiny_data 0 = tiny_data"
  "match_obj_header tiny_data = Some (1, 0, 8)"
  "parse_object 3 tiny_data 8 = Return (BooleanObject True, 12)"
  "match_stream (drop 12 tiny_data) = None"
  by (simp add: py_slice_from_def clamp_index_def, code_simp+)

lemma tiny_first:
  "get_object 5 tiny_reader (IndirectObject 1 0 True)
     = Return (Some (BooleanObject True),
               tiny_reader\<lparr>rd_objects := [1 \<mapsto> Some (BooleanObject True)]\<rparr>)"
  by (simp add: tiny_reader_def new_reader_def get_object_numeral parse_indirect_object_numeral
        tiny_data_facts Let_def del: parse_object.simps)

text \<open>
  C10. Resolution depends on the object number only: two references to the same number
  with any generations (and any \<^verbatim>\<open>pdf\<close> field) resolve alike, and replacing the
  generations stored in the cross-reference map changes neither the value returned nor the
  cache.
\<close>

theorem get_object_ignores_generation:
  "get_object fuel rd (IndirectObject n g1 p1) = get_object fuel rd (IndirectObject n g2 p2)
   \<and> get_object fuel (with_generations h rd) ref
       = bind (get_object fuel rd ref) (\<lambda>(v, r). Return (v, with_generations h r))"
proof
  show "get_object fuel rd (IndirectObject n g1 p1) = get_object fuel rd (IndirectObject n g2 p2)"
    by (cases fuel) simp_all
  show "get_object fuel (with_generations h rd) ref
        = bind (get_object fuel rd ref) (\<lambda>(v, r). Return (v, with_generations h r))"
    by (rule generations_unused)
qed

theorem get_object_ignores_generation_witness:
  "get_object 5 tiny_reader (IndirectObject 1 7 False)
     = Return (Some (BooleanObject True),
               tiny_reader\<lparr>rd_objects := [1 \<mapsto> Some (BooleanObject True)]\<rparr>)"
  using get_object_ignores_generation [of 5 tiny_reader 1 7 False 0 True]
  by (simp add: tiny_first)

text \<open>
  C9. When resolving an object number listed in the cross-reference map returns, the value
  is in the cache, and every later resolution returns that value and leaves the reader as it
  is, with any budget and whatever the buffer then holds: it reads the cache, not the bytes.
\<close>

theorem get_object_memoized:
  assumes "get_object fuel rd ref = Return (v, rd')"
    and "object_number ref = Return n"
    and "rd_xref rd n \<noteq> None"
  shows "rd_objects rd' n = Some v
         \<and> get_object (Suc k) (rd'\<lparr>rd_data := buf\<rparr>) ref = Return (v, rd'\<lparr>rd_data := buf\<rparr>)"
proof -
  obtain f where f: "fuel = Suc f" using assms(1) by (cases fuel) auto
  have "rd_objects rd' n = Some v"
    using assms unfolding f
    by (auto split: option.splits outcome.splits prod.splits)
  then show ?thesis using assms(2) by simp
qed

theorem get_object_memoized_witness:
  "get_object 5 tiny_reader (IndirectObject 1 0 True)
     = Return (Some (BooleanObject True),
               tiny_reader\<lparr>rd_objects := [1 \<mapsto> Some (BooleanObject True)]\<rparr>)
   \<and> get_object 1 (tiny_reader\<lparr>rd_objects := [1 \<mapsto> Some (BooleanObject True)], rd_data := ''''\<rparr>)
        (IndirectObject 1 0 True)
     = Return (Some (BooleanObject True),
               tiny_reader\<lparr>rd_objects := [1 \<mapsto> Some (BooleanObject True)], rd_data := ''''\<rparr>)"
proof -
  have x: "rd_xref tiny_reader 1 \<noteq> None" by (simp add: tiny_reader_def)
  have n: "object_number (IndirectObject 1 0 True) = Return 1" by simp
  show ?thesis
    using get_object_memoized [OF tiny_first n x, of 0 "''''"] by (simp add: tiny_first)
qed

subsection \<open>Opening a document\<close>

lemmas parse_xref_numeral =
  parse_xref.simps(2)[of _ "pred_numeral k", folded numeral_eq_Suc] for k

lemmas parse_xref_stream_numeral =
  parse_xref_stream.simps(2)[of _ "pred_numeral k", folded numeral_eq_Suc] for k

lemmas parse_xref_table_numeral =
  parse_xref_table.simps(2)[of _ "pred_numeral k", folded numeral_eq_Suc] for k

lemma bare_startxref_facts:
  "bare_startxref \<noteq> []"
  "search_startxref (py_slice_from bare_startxref (- 1024)) = Some ''0''"
  "digits_val ''0'' = 0"
  "startswith (py_slice_from bare_startxref 0) ''xref'' = False"
  "match_obj_header (py_slice_from bare_startxref 0) = None"
  by code_simp+

text \<open>
  C5. Claimed: only an empty buffer and a missing \<^verbatim>\<open>startxref\<close> make the construction
  fail, a malformed cross-reference section being absorbed. The buffer \<^verbatim>\<open>startxref 0\<close> is
  not empty and has the token, its target is neither a table nor a stream object, and the
  construction raises \<^verbatim>\<open>PdfReadError("Invalid xref stream")\<close>.
\<close>

theorem init_invalid_xref_stream_raises:
  "bare_startxref \<noteq> []
   \<and> search_startxref (py_slice_from bare_startxref (- 1024)) \<noteq> None
   \<and> init no_zlib 10 bare_startxref None = Raise (PdfReadError ''Invalid xref stream'')"
  by (simp add: bare_startxref_facts init_def parse_def new_reader_def bind_def
        parse_xref_numeral parse_xref_stream_numeral stream_section_def
        parse_indirect_object_numeral Let_def)

text \<open>
  C5, as the code has it. The construction fails with \<^verbatim>\<open>EmptyFileError\<close> on an empty
  buffer, with \<^verbatim>\<open>PdfReadError("Cannot find startxref")\<close> when the last 1024 bytes hold no
  \<^verbatim>\<open>startxref\<close> token followed by a number, and with
  \<^verbatim>\<open>PdfReadError("Invalid xref stream")\<close> when the target of \<^verbatim>\<open>startxref\<close> does not begin
  with \<^verbatim>\<open>xref\<close> and what is parsed there is not a stream object.
\<close>

theorem init_fatal_errors:
  "init inflate fuel [] pw = Raise EmptyFileError
   \<and> (data \<noteq> [] \<and> search_startxref (py_slice_from data (- 1024)) = None
        \<longrightarrow> init inflate fuel data pw = Raise (PdfReadError ''Cannot find startxref''))
   \<and> (data \<noteq> [] \<and> search_startxref (py_slice_from data (- 1024)) = Some ds
        \<and> \<not> startswith (py_slice_from data (int (digits_val ds))) ''xref''
        \<and> parse_indirect_object fuel (new_reader data) (int (digits_val ds))
            = Return ((obj, e), rd_after)
        \<and> (\<forall>d raw dec. obj \<noteq> Some (StreamObject d raw dec))
        \<longrightarrow> init inflate (fuel + 2) data pw = Raise (PdfReadError ''Invalid xref stream''))"
  by (auto simp: init_def parse_def bind_def stream_section_def new_reader_def
           split: option.splits pdf_object.splits)

lemma number_at_target_facts:
  "number_at_target \<noteq> []"
  "search_startxref (py_slice_from number_at_target (- 1024)) = Some ''0''"
  "startswith (py_slice_from number_at_target 0) ''xref'' = False"
  "match_obj_header (py_slice_from number_at_target 0) = Some (1, 0, 8)"
  "parse_object 7 (py_slice_from number_at_target 0) 8 = Return (NumberObject (IntNum 5), 9)"
  "match_stream (drop 9 (py_slice_from number_at_target 0)) = None"
  by code_simp+

lemma no_startxref_facts:
  "no_startxref \<noteq> []"
  "search_startxref (py_slice_from no_startxref (- 1024)) = None"
  by code_simp+

lemma number_at_target_object:
  "parse_indirect_object 8 (new_reader number_at_target) (int (digits_val ''0''))
     = Return ((Some (NumberObject (IntNum 5)), 9), new_reader number_at_target)"
  by (simp add: parse_indirect_object_numeral new_reader_def number_at_target_facts
        bare_startxref_facts(3) Let_def del: parse_object.simps)

theorem init_fatal_errors_witness:
  "init no_zlib 10 [] None = Raise EmptyFileError
   \<and> init no_zlib 10 no_startxref None = Raise (PdfReadError ''Cannot find startxref'')
   \<and> init no_zlib 10 number_at_target None = Raise (PdfReadError ''Invalid xref stream'')"
proof -
  have h: "number_at_target \<noteq> []
      \<and> search_startxref (py_slice_from number_at_target (- 1024)) = Some ''0''
      \<and> \<not> startswith (py_slice_from number_at_target (int (digits_val ''0''))) ''xref''
      \<and> parse_indirect_object 8 (new_reader number_at_target) (int (digits_val ''0''))
          = Return ((Some (NumberObject (IntNum 5)), 9), new_reader number_at_target)
      \<and> (\<forall>d raw dec. Some (NumberObject (IntNum 5)) \<noteq> Some (StreamObject d raw dec))"
    using number_at_target_object
    by (simp add: number_at_target_facts bare_startxref_facts(3))
  show ?thesis
    using init_fatal_errors [of no_zlib 10 None no_startxref]
      init_fatal_errors [of no_zlib 8 None number_at_target "''0''"
        "Some (NumberObject (IntNum 5))" 9 "new_reader number_at_target"] h
    by (simp add: no_startxref_facts)
qed

subsection \<open>The media box of a page\<close>





subsection \<open>The page tree walker on a cycle\<close>


















end
